theory Spec2Isabelle
  imports Complex_Main
begin

section \<open>numpy values and arrays\<close>

text \<open>
  The three activities compute on one-dimensional numpy arrays of float64. A float64 is
  modelled as a real number or NaN: NaN is kept because the code can produce it from
  finite inputs (a remainder by zero, the mean of an empty array); every operation
  propagates NaN and every comparison with NaN is false, as in numpy. Overflow and the
  infinities are outside the model. The transit model, the fit score and the
  habitability score are modelled in exact real arithmetic. The phase fold is modelled
  with the rounding of float64 written out (section \<open>float64 rounding\<close>), because
  the range of its result depends on it.
\<close>

datatype npfloat = Fin real | NaN

type_synonym ndarray = "npfloat list"

text \<open>
  Every exception the modelled code can raise is a Python ValueError. The three kinds
  differ in the place that raises them: numpy's broadcasting of two shapes
  (``operands could not be broadcast together''), matplotlib's check of the two
  arguments of \<open>scatter\<close> and \<open>plot\<close> (``x and y must be the same size''), and
  \<open>int\<close> applied to NaN (``cannot convert float NaN to integer'').
\<close>

datatype value_error = BroadcastShapes | PlotSizes | NaNToInteger

datatype py_error = ValueError value_error

definition np_map :: "(real \<Rightarrow> real) \<Rightarrow> npfloat \<Rightarrow> npfloat" where
  "np_map f x = (case x of Fin r \<Rightarrow> Fin (f r) | NaN \<Rightarrow> NaN)"

definition np_lt :: "npfloat \<Rightarrow> real \<Rightarrow> bool" where
  "np_lt x r = (case x of Fin v \<Rightarrow> v < r | NaN \<Rightarrow> False)"

text \<open>
  The exact value of Python's and numpy's \<open>%\<close> on floats: the remainder of the
  floored division, which takes the sign of the divisor. The float64 operation, which
  rounds, is \<open>np_remainder\<close> below.
\<close>

definition py_mod :: "real \<Rightarrow> real \<Rightarrow> real" where
  "py_mod x p = x - p * of_int \<lfloor>x / p\<rfloor>"

text \<open>
  \<open>(x % period) / period\<close> for one sample in exact arithmetic, as the model of
  \<open>_transit_model\<close> uses it. With \<open>period = 0\<close> numpy gives \<open>x % 0 = NaN\<close>
  and then \<open>NaN / 0 = NaN\<close>; no exception is raised.
\<close>

definition np_phase :: "real \<Rightarrow> npfloat \<Rightarrow> npfloat" where
  "np_phase period x =
     (case x of
        NaN \<Rightarrow> NaN
      | Fin t \<Rightarrow> if period = 0 then NaN else Fin (py_mod t period / period))"

definition ones_like :: "ndarray \<Rightarrow> ndarray" where
  "ones_like a = map (\<lambda>_. Fin 1) a"

definition np_any :: "bool list \<Rightarrow> bool" where
  "np_any ms = list_ex (\<lambda>m. m) ms"

text \<open>\<open>a[mask] = v\<close> for a scalar \<open>v\<close>, as a new list.\<close>

definition mask_fill :: "'a list \<Rightarrow> bool list \<Rightarrow> 'a \<Rightarrow> 'a list" where
  "mask_fill a msk v = map2 (\<lambda>x m. if m then v else x) a msk"

text \<open>\<open>a[mask]\<close>: the elements at the true positions, in order.\<close>

fun select :: "'a list \<Rightarrow> bool list \<Rightarrow> 'a list" where
  "select (x # xs) (m # ms) = (if m then x # select xs ms else select xs ms)"
| "select _ _ = []"

text \<open>
  \<open>a[mask] = vs\<close> for an array \<open>vs\<close>: the values go to the true positions in order.
  The code only assigns values computed from \<open>d[mask]\<close> for the same mask, so the
  number of values always equals the number of true positions.
\<close>

fun mask_assign :: "'a list \<Rightarrow> bool list \<Rightarrow> 'a list \<Rightarrow> 'a list" where
  "mask_assign (x # xs) (m # ms) vs =
     (if m then (case vs of v # vs' \<Rightarrow> v # mask_assign xs ms vs'
                          | [] \<Rightarrow> x # mask_assign xs ms [])
      else x # mask_assign xs ms vs)"
| "mask_assign xs _ _ = xs"

text \<open>
  \<open>a - b\<close> on one-dimensional arrays: equal shapes subtract elementwise, a shape of
  length 1 is broadcast against the other, and any other pair of shapes raises
  ValueError.
\<close>

definition np_sub :: "npfloat \<Rightarrow> npfloat \<Rightarrow> npfloat" where
  "np_sub x y = (case (x, y) of (Fin a, Fin b) \<Rightarrow> Fin (a - b) | _ \<Rightarrow> NaN)"

definition np_subtract :: "ndarray \<Rightarrow> ndarray \<Rightarrow> py_error + ndarray" where
  "np_subtract a b =
     (if length a = length b then Inr (map2 np_sub a b)
      else if length a = 1 then Inr (map (\<lambda>y. np_sub (hd a) y) b)
      else if length b = 1 then Inr (map (\<lambda>x. np_sub x (hd b)) a)
      else Inl (ValueError BroadcastShapes))"

definition np_add :: "npfloat \<Rightarrow> npfloat \<Rightarrow> npfloat" where
  "np_add x y = (case (x, y) of (Fin a, Fin b) \<Rightarrow> Fin (a + b) | _ \<Rightarrow> NaN)"

definition np_sum :: "ndarray \<Rightarrow> npfloat" where
  "np_sum a = foldr np_add a (Fin 0)"

text \<open>\<open>np.mean\<close>: the mean of an empty array is \<open>0/0 = NaN\<close> (a warning, no exception).\<close>

definition np_mean :: "ndarray \<Rightarrow> npfloat" where
  "np_mean a = (if a = [] then NaN else np_map (\<lambda>s. s / real (length a)) (np_sum a))"

definition np_sqrt :: "npfloat \<Rightarrow> npfloat" where
  "np_sqrt x = (case x of Fin r \<Rightarrow> if r < 0 then NaN else Fin (sqrt r) | NaN \<Rightarrow> NaN)"

text \<open>\<open>np.clip(x, lo, hi) = minimum(maximum(x, lo), hi)\<close>; NaN stays NaN.\<close>

definition np_clip :: "npfloat \<Rightarrow> real \<Rightarrow> real \<Rightarrow> npfloat" where
  "np_clip x lo hi = np_map (\<lambda>r. min (max r lo) hi) x"

section \<open>float64 rounding\<close>

text \<open>
  An arithmetic operation of float64 returns the float64 nearest to the exact result,
  ties to even (IEEE 754 binary64, the default rounding mode). \<open>round_half_even\<close>
  rounds to the nearest integer, ties to the even one.
\<close>

definition round_half_even :: "real \<Rightarrow> int" where
  "round_half_even x =
     (let n = \<lfloor>x\<rfloor>; d = x - of_int n
      in if d < 1/2 then n else if 1/2 < d then n + 1 else if even n then n else n + 1)"

text \<open>
  The exponent of the binade of \<open>x\<close>, held at -1022 in the subnormal range, and the
  float64 nearest to a real number: 53 significant bits, so the spacing of the floats
  around \<open>x\<close> is \<open>2 ^ (exponent - 52)\<close>.
\<close>

definition float64_exponent :: "real \<Rightarrow> int" where
  "float64_exponent x = max \<lfloor>log 2 \<bar>x\<bar>\<rfloor> (- 1022)"

definition round64 :: "real \<Rightarrow> real" where
  "round64 x =
     (if x = 0 then 0
      else (let u = 2 powr (of_int (float64_exponent x) - 52)
            in of_int (round_half_even (x / u)) * u))"

text \<open>
  C's \<open>fmod\<close>: the remainder of the division truncated towards zero. It has the sign
  of the dividend and is exact (no rounding).
\<close>

definition c_fmod :: "real \<Rightarrow> real \<Rightarrow> real" where
  "c_fmod x y = x - y * of_int (if 0 \<le> x / y then \<lfloor>x / y\<rfloor> else \<lceil>x / y\<rceil>)"

text \<open>
  numpy's and Python's \<open>x % y\<close> on floats for \<open>y \<noteq> 0\<close>, as both implement it:
  \<open>mod = fmod(x, y); if (mod) { if ((y < 0) != (mod < 0)) mod += y; }\<close>.
  The addition is a float64 addition and rounds.
\<close>

definition np_remainder :: "real \<Rightarrow> real \<Rightarrow> real" where
  "np_remainder x y =
     (let m = c_fmod x y
      in if m \<noteq> 0 \<and> ((y < 0) \<noteq> (m < 0)) then round64 (m + y) else m)"

text \<open>
  \<open>(x % period) / period\<close> for one sample in float64: the remainder, then the rounded
  division. With \<open>period = 0\<close> the remainder is NaN and so is the quotient.
\<close>

definition np_phase64 :: "real \<Rightarrow> npfloat \<Rightarrow> npfloat" where
  "np_phase64 period x =
     (case x of
        NaN \<Rightarrow> NaN
      | Fin t \<Rightarrow> if period = 0 then NaN
                 else Fin (round64 (np_remainder t period / period)))"

section \<open>Library calls that can raise\<close>

text \<open>
  matplotlib's \<open>scatter(x, y)\<close> and \<open>plot(x, y)\<close> raise ValueError when the two
  arrays differ in size and draw the series otherwise; they only read their arguments.
\<close>

type_synonym series = "ndarray \<times> ndarray"

definition plt_scatter :: "ndarray \<Rightarrow> ndarray \<Rightarrow> py_error + series" where
  "plt_scatter x y = (if length x \<noteq> length y then Inl (ValueError PlotSizes) else Inr (x, y))"

definition plt_plot :: "ndarray \<Rightarrow> ndarray \<Rightarrow> py_error + series" where
  "plt_plot x y = (if length x \<noteq> length y then Inl (ValueError PlotSizes) else Inr (x, y))"

text \<open>Python's \<open>int(x)\<close> on a float: truncation towards zero; NaN raises ValueError.\<close>

definition py_int :: "npfloat \<Rightarrow> py_error + int" where
  "py_int x =
     (case x of
        NaN \<Rightarrow> Inl (ValueError NaNToInteger)
      | Fin r \<Rightarrow> Inr (if 0 \<le> r then \<lfloor>r\<rfloor> else \<lceil>r\<rceil>))"

section \<open>Activity 1: the transit model and the fit score (kepler22\_lab.py)\<close>

text \<open>
  \<open>Kepler_Tool._transit_model\<close>, statement by statement. The function has no guard
  and no raise. The division by \<open>transit_duration * 0.4\<close> is only evaluated on the
  samples selected by \<open>edges\<close> (lemma \<open>edges_duration_pos\<close> below shows the divisor is
  positive whenever a sample is selected).
\<close>

definition transit_model :: "ndarray \<Rightarrow> real \<Rightarrow> real \<Rightarrow> real \<Rightarrow> ndarray" where
  "transit_model time planet_size orbital_period impact_parameter =
     (let phase = map (np_phase orbital_period) time;
          center = 1/2;
          transit_depth = planet_size ^ 2;
          transit_duration = 1/10 * (impact_parameter / 10);
          flux = ones_like time;
          distance_from_center = map (np_map (\<lambda>p. \<bar>p - center\<bar>)) phase;
          in_transit = map (\<lambda>d. np_lt d transit_duration) distance_from_center
      in if np_any in_transit then
           (let mid_transit =
                  map (\<lambda>d. np_lt d (transit_duration * (6/10))) distance_from_center;
                flux1 = mask_fill flux mid_transit (Fin (1 - transit_depth));
                edges = map2 (\<lambda>a b. a \<and> \<not> b) in_transit mid_transit
            in if np_any edges then
                 (let edge_distance =
                        map (np_map (\<lambda>d. (d - transit_duration * (6/10))
                                            / (transit_duration * (4/10))))
                            (select distance_from_center edges)
                  in mask_assign flux1 edges
                       (map (np_map (\<lambda>e. 1 - transit_depth * (1 - e ^ 2))) edge_distance))
               else flux1)
         else flux)"

text \<open>
  The per-sample description of the light curve in the spec (section 4.1, steps 4 to 7):
  the distance of the phase from 0.5, the flat bottom below 0.6 half-durations, the
  quadratic taper up to one half-duration, and 1.0 elsewhere. It is compared with
  \<open>transit_model\<close> in lemma \<open>transit_model_pointwise\<close>.
\<close>

definition sample_distance :: "real \<Rightarrow> npfloat \<Rightarrow> npfloat" where
  "sample_distance period x = np_map (\<lambda>p. \<bar>p - 1/2\<bar>) (np_phase period x)"

definition trapezoid_flux :: "real \<Rightarrow> real \<Rightarrow> real \<Rightarrow> npfloat \<Rightarrow> npfloat" where
  "trapezoid_flux planet_size period impact_parameter x =
     (let d = sample_distance period x;
          dur = 1/10 * (impact_parameter / 10)
      in if np_lt d (dur * (6/10)) then Fin (1 - planet_size ^ 2)
         else if np_lt d dur
              then np_map (\<lambda>d. 1 - planet_size ^ 2 * (1 - ((d - dur * (6/10)) / (dur * (4/10))) ^ 2)) d
              else Fin 1)"

text \<open>
  The fit quality of \<open>update_fit\<close> (lines 203 to 206): residuals, their root mean
  square, the exponential score and its clip.
\<close>

record fit_result =
  fit_rms_error :: npfloat
  fit_score :: npfloat

definition fit_quality :: "ndarray \<Rightarrow> ndarray \<Rightarrow> py_error + fit_result" where
  "fit_quality flux model_flux =
     (case np_subtract flux model_flux of
        Inl e \<Rightarrow> Inl e
      | Inr residuals \<Rightarrow>
          (let rms_error = np_sqrt (np_mean (map (np_map (\<lambda>r. r ^ 2)) residuals));
               base_score = np_map (\<lambda>e. 100 * exp (- e * 1000)) rms_error;
               score = np_clip base_score 0 100
           in Inr \<lparr>fit_rms_error = rms_error, fit_score = score\<rparr>))"

text \<open>
  The callback \<open>update_fit\<close> of \<open>interactive_fit\<close>, with every statement that
  can raise: the residuals (line 203), \<open>ax1.scatter(time, flux)\<close> (line 265),
  \<open>ax1.plot(time, model_flux)\<close> (line 266), \<open>ax2.scatter(time, residuals)\<close>
  (line 276) and \<open>int(bar_length * score / 100)\<close> with \<open>bar_length = 20\<close>
  (line 376). The callback returns nothing; the value of the model is the RMS error and
  the score it has rendered when it runs to its end.
\<close>

definition update_fit ::
  "ndarray \<Rightarrow> ndarray \<Rightarrow> real \<Rightarrow> real \<Rightarrow> real \<Rightarrow> py_error + fit_result" where
  "update_fit time flux planet_size orbital_period orbital_speed =
     (let model_flux = transit_model time planet_size orbital_period orbital_speed
      in case np_subtract flux model_flux of
           Inl e \<Rightarrow> Inl e
         | Inr residuals \<Rightarrow>
             (let rms_error = np_sqrt (np_mean (map (np_map (\<lambda>r. r ^ 2)) residuals));
                  base_score = np_map (\<lambda>e. 100 * exp (- e * 1000)) rms_error;
                  score = np_clip base_score 0 100
              in case plt_scatter time flux of
                   Inl e \<Rightarrow> Inl e
                 | Inr _ \<Rightarrow>
              (case plt_plot time model_flux of
                   Inl e \<Rightarrow> Inl e
                 | Inr _ \<Rightarrow>
              (case plt_scatter time residuals of
                   Inl e \<Rightarrow> Inl e
                 | Inr _ \<Rightarrow>
              (case py_int (np_map (\<lambda>s. 20 * s / 100) score) of
                   Inl e \<Rightarrow> Inl e
                 | Inr filled \<Rightarrow>
                     Inr \<lparr>fit_rms_error = rms_error, fit_score = score\<rparr>)))))"

section \<open>Activities 2 and 3: phase folding\<close>

text \<open>
  The mission object holds the loaded arrays, or None before \<open>load_data\<close>.
  \<open>TRAPPISTMission.fold_at_period\<close> of trappist\_detective.py prints a message and
  returns None when no data is loaded; otherwise it computes the phases, scatters them
  against the flux (line 97) and returns the phase array. It has no check on the period.
\<close>

record mission =
  self_time :: "ndarray option"
  self_flux :: "ndarray option"

definition fold_at_period :: "mission \<Rightarrow> real \<Rightarrow> py_error + ndarray option" where
  "fold_at_period self period =
     (case (self_time self, self_flux self) of
        (Some time, Some flux) \<Rightarrow>
          (let phase = map (np_phase64 period) time
           in case plt_scatter phase flux of
                Inl e \<Rightarrow> Inl e
              | Inr _ \<Rightarrow> Inr (Some phase))
      | _ \<Rightarrow> Inr None)"

text \<open>
  trappist\_habitable.py: \<open>_has_data\<close> also refuses empty arrays. Its
  \<open>fold_at_period\<close> computes the same phase expression, scatters it against the flux
  and returns None on every path. The model gives the return value (the unit value for
  None) and the list of the series the call has drawn.
\<close>

definition has_data :: "mission \<Rightarrow> bool" where
  "has_data self =
     (case (self_time self, self_flux self) of
        (Some time, Some flux) \<Rightarrow> \<not> (length time = 0 \<or> length flux = 0)
      | _ \<Rightarrow> False)"

definition fold_at_period_habitable ::
  "mission \<Rightarrow> real \<Rightarrow> py_error + unit \<times> series list" where
  "fold_at_period_habitable self period =
     (if \<not> has_data self then Inr ((), [])
      else (case (self_time self, self_flux self) of
              (Some time, Some flux) \<Rightarrow>
                (let phase = map (np_phase64 period) time
                 in case plt_scatter phase flux of
                      Inl e \<Rightarrow> Inl e
                    | Inr drawn \<Rightarrow> Inr ((), [drawn]))
            | _ \<Rightarrow> Inr ((), [])))"

section \<open>Activity 3: the habitability score (trappist\_habitable.py)\<close>

definition calculate_habitability_score :: "real \<Rightarrow> real" where
  "calculate_habitability_score temp =
     (let score =
        (if -20 \<le> temp \<and> temp \<le> 50 then 1 - \<bar>temp - 15\<bar> / 65
         else if -50 \<le> temp \<and> temp < -20 then 6/10 - (\<bar>temp\<bar> - 20) / 150
         else 3/10)
      in max (3/10) (min 1 score))"

section \<open>The same operations on a store of arrays\<close>

text \<open>
  To speak about mutation, arrays live in a store and variables hold addresses: an
  address is an index in the list of allocated arrays. Every assignment of a numpy
  expression to a name allocates a new array for its value (the unnamed intermediate
  results of an expression are left out); only an index assignment
  \<open>a[mask] = ...\<close> writes into an existing array. Boolean masks are short-lived
  arrays of another dtype and are kept as values. \<open>transit_model_st\<close> and
  \<open>fold_at_period_st\<close> follow the source statement by statement; the plotting
  call of \<open>fold_at_period\<close> only reads its arguments.
\<close>

type_synonym addr = nat
type_synonym store = "ndarray list"

definition alloc :: "ndarray \<Rightarrow> store \<Rightarrow> addr \<times> store" where
  "alloc a s = (length s, s @ [a])"

definition transit_model_st ::
  "addr \<Rightarrow> real \<Rightarrow> real \<Rightarrow> real \<Rightarrow> store \<Rightarrow> addr \<times> store" where
  "transit_model_st time planet_size orbital_period impact_parameter s0 =
     (let (phase, s1) = alloc (map (np_phase orbital_period) (s0 ! time)) s0;
          center = 1/2;
          transit_depth = planet_size ^ 2;
          transit_duration = 1/10 * (impact_parameter / 10);
          (flux, s2) = alloc (ones_like (s1 ! time)) s1;
          (distance_from_center, s3) =
             alloc (map (np_map (\<lambda>p. \<bar>p - center\<bar>)) (s2 ! phase)) s2;
          in_transit = map (\<lambda>d. np_lt d transit_duration) (s3 ! distance_from_center)
      in if np_any in_transit then
           (let mid_transit =
                  map (\<lambda>d. np_lt d (transit_duration * (6/10))) (s3 ! distance_from_center);
                s4 = s3[flux := mask_fill (s3 ! flux) mid_transit (Fin (1 - transit_depth))];
                edges = map2 (\<lambda>a b. a \<and> \<not> b) in_transit mid_transit
            in if np_any edges then
                 (let (edge_distance, s5) =
                        alloc (map (np_map (\<lambda>d. (d - transit_duration * (6/10))
                                                   / (transit_duration * (4/10))))
                                   (select (s4 ! distance_from_center) edges)) s4;
                      s6 = s5[flux := mask_assign (s5 ! flux) edges
                                (map (np_map (\<lambda>e. 1 - transit_depth * (1 - e ^ 2)))
                                     (s5 ! edge_distance))]
                  in (flux, s6))
               else (flux, s4))
         else (flux, s3))"

text \<open>The mission object of trappist\_detective.py, its attributes as references.\<close>

record mission_st =
  time_ref :: "addr option"
  flux_ref :: "addr option"

definition fold_at_period_st ::
  "mission_st \<Rightarrow> real \<Rightarrow> store \<Rightarrow> (py_error + addr option) \<times> store" where
  "fold_at_period_st self period s =
     (case (time_ref self, flux_ref self) of
        (Some time, Some flux) \<Rightarrow>
          (let (phase, s1) = alloc (map (np_phase64 period) (s ! time)) s
           in case plt_scatter (s1 ! phase) (s1 ! flux) of
                Inl e \<Rightarrow> (Inl e, s1)
              | Inr _ \<Rightarrow> (Inr (Some phase), s1))
      | _ \<Rightarrow> (Inr None, s))"

section \<open>The transit model is the trapezoid of the spec\<close>

lemma mask_assign_select:
  "length xs = length ds \<Longrightarrow> 
   mask_assign xs (map p ds) (map f (select ds (map p ds)))
     = map2 (\<lambda>x d. if p d then f d else x) xs ds"
  by (induction xs ds rule: list_induct2) auto

lemma np_any_map: "np_any (map p xs) = (\<exists>x \<in> set xs. p x)"
  by (simp add: np_any_def list_ex_iff)

lemma map2_same: "map2 f (map g xs) (map h xs) = map (\<lambda>x. f (g x) (h x)) xs"
  by (induction xs) auto

lemma map2_right: "map2 f (map g xs) xs = map (\<lambda>x. f (g x) x) xs"
  by (induction xs) auto

lemma mask_fill_ones:
  "mask_fill (map (\<lambda>_. c) ds) (map q ds) v = map (\<lambda>d. if q d then v else c) ds"
  by (induction ds) (auto simp: mask_fill_def)

lemma trapezoid_cases:
  assumes qp: "\<And>d. d \<in> set ds \<Longrightarrow> q d \<Longrightarrow> p d"
  shows "(let flux = map (\<lambda>_. c) ds; in_transit = map p ds
          in if np_any in_transit then
               (let mid_transit = map q ds;
                    flux1 = mask_fill flux mid_transit v;
                    edges = map2 (\<lambda>a b. a \<and> \<not> b) in_transit mid_transit
                in if np_any edges then
                     mask_assign flux1 edges (map g (select ds edges))
                   else flux1)
             else flux)
         = map (\<lambda>d. if q d then v else if p d then g d else c) ds"
proof -
  let ?r = "\<lambda>d. p d \<and> \<not> q d"
  have edges: "map2 (\<lambda>a b. a \<and> \<not> b) (map p ds) (map q ds) = map ?r ds"
    by (rule map2_same)
  have flux1: "mask_fill (map (\<lambda>_. c) ds) (map q ds) v = map (\<lambda>d. if q d then v else c) ds"
    by (rule mask_fill_ones)
  have assign: "mask_assign (map (\<lambda>d. if q d then v else c) ds) (map ?r ds)
                  (map g (select ds (map ?r ds)))
                = map (\<lambda>d. if ?r d then g d else if q d then v else c) ds"
    by (simp add: mask_assign_select map2_right)
  show ?thesis
  proof (cases "\<exists>d \<in> set ds. p d")
    case False
    with qp have "map (\<lambda>d. if q d then v else if p d then g d else c) ds = map (\<lambda>_. c) ds"
      by (intro map_cong) auto
    with False show ?thesis by (simp add: np_any_map)
  next
    case True
    show ?thesis
    proof (cases "\<exists>d \<in> set ds. ?r d")
      case False
      then have "map (\<lambda>d. if q d then v else if p d then g d else c) ds
                 = map (\<lambda>d. if q d then v else c) ds"
        by (intro map_cong) auto
      moreover have "np_any (map p ds)" using True by (simp add: np_any_map)
      moreover have "\<not> np_any (map ?r ds)" using False by (simp add: np_any_map)
      ultimately show ?thesis
        unfolding Let_def edges flux1 by simp
    next
      case edge: True
      have "map (\<lambda>d. if q d then v else if p d then g d else c) ds
            = map (\<lambda>d. if ?r d then g d else if q d then v else c) ds"
        by (intro map_cong) auto
      moreover have "np_any (map p ds)" using True by (simp add: np_any_map)
      moreover have "np_any (map ?r ds)" using edge by (simp add: np_any_map)
      ultimately show ?thesis
        unfolding Let_def edges flux1 assign by simp
    qed
  qed
qed

lemma sample_distance_nonneg: "sample_distance per x = Fin d \<Longrightarrow> 0 \<le> d"
  by (auto simp: sample_distance_def np_map_def split: npfloat.splits)

lemma mid_imp_in_transit:
  "np_lt (sample_distance per x) (dur * (6/10)) \<Longrightarrow> np_lt (sample_distance per x) dur"
proof (cases "sample_distance per x")
  case (Fin d)
  assume "np_lt (sample_distance per x) (dur * (6/10))"
  with Fin have lt: "d < dur * (6/10)" by (simp add: np_lt_def)
  from Fin have "0 \<le> d" by (rule sample_distance_nonneg)
  with lt have "d < dur" by simp
  with Fin show ?thesis by (simp add: np_lt_def)
next
  case NaN
  assume "np_lt (sample_distance per x) (dur * (6/10))"
  with NaN show ?thesis by (simp add: np_lt_def)
qed

lemma transit_model_pointwise:
  "transit_model time ps per ip = map (trapezoid_flux ps per ip) time"
proof -
  define dur where "dur = 1/10 * (ip / 10)"
  define ds where "ds = map (sample_distance per) time"
  define g where "g = (\<lambda>d. np_map (\<lambda>e. 1 - ps ^ 2 * (1 - e ^ 2))
                         (np_map (\<lambda>d. (d - dur * (6/10)) / (dur * (4/10))) d))"
  have dist: "map (np_map (\<lambda>p. \<bar>p - 1/2\<bar>)) (map (np_phase per) time) = ds"
    by (simp add: ds_def sample_distance_def)
  have ones: "ones_like time = map (\<lambda>_. Fin 1) ds"
    by (simp add: ones_like_def ds_def)
  have vals: "\<And>es. map (np_map (\<lambda>e. 1 - ps ^ 2 * (1 - e ^ 2)))
                 (map (np_map (\<lambda>d. (d - dur * (6/10)) / (dur * (4/10)))) es) = map g es"
    by (simp add: g_def)
  have qp: "\<And>d. d \<in> set ds \<Longrightarrow> np_lt d (dur * (6/10)) \<Longrightarrow> np_lt d dur"
    by (auto simp: ds_def mid_imp_in_transit)
  have "transit_model time ps per ip
        = map (\<lambda>d. if np_lt d (dur * (6/10)) then Fin (1 - ps ^ 2)
                    else if np_lt d dur then g d else Fin 1) ds"
    unfolding transit_model_def Let_def dist ones vals dur_def[symmetric]
    using trapezoid_cases[of ds "\<lambda>d. np_lt d (dur * (6/10))" "\<lambda>d. np_lt d dur"
            "Fin 1" "Fin (1 - ps ^ 2)" g, OF qp]
    unfolding Let_def by simp
  also have "\<dots> = map (trapezoid_flux ps per ip) time"
    by (simp add: ds_def trapezoid_flux_def Let_def g_def dur_def np_map_def o_def
             split: npfloat.splits)
  finally show ?thesis .
qed


lemma edges_duration_pos:
  assumes "np_lt (sample_distance per x) dur"
  shows "0 < dur"
proof (cases "sample_distance per x")
  case (Fin d)
  with assms have "d < dur" by (simp add: np_lt_def)
  moreover from Fin have "0 \<le> d" by (rule sample_distance_nonneg)
  ultimately show ?thesis by simp
next
  case NaN
  with assms show ?thesis by (simp add: np_lt_def)
qed

lemma taper_bounds:
  fixes d dur depth :: real
  assumes "0 \<le> depth" "\<not> d < dur * (6/10)" "d < dur"
  shows "1 - depth \<le> 1 - depth * (1 - ((d - dur * (6/10)) / (dur * (4/10))) ^ 2)"
    and "1 - depth * (1 - ((d - dur * (6/10)) / (dur * (4/10))) ^ 2) \<le> 1"
proof -
  define e where "e = (d - dur * (6/10)) / (dur * (4/10))"
  from assms have dur: "0 < dur * (4/10)" by simp
  have e0: "0 \<le> e" unfolding e_def using assms dur by simp
  have "d - dur * (6/10) < dur * (4/10)" using assms by simp
  then have e1: "e < 1" unfolding e_def using dur by (simp add: divide_less_eq)
  from e0 e1 have "e ^ 2 \<le> 1" by (simp add: power_le_one)
  moreover have "0 \<le> e ^ 2" by simp
  ultimately have "0 \<le> 1 - e ^ 2" "1 - e ^ 2 \<le> 1" by simp_all
  with assms(1) have "0 \<le> depth * (1 - e ^ 2)" "depth * (1 - e ^ 2) \<le> depth"
    by (simp_all add: mult_left_le)
  then show "1 - depth \<le> 1 - depth * (1 - ((d - dur * (6/10)) / (dur * (4/10))) ^ 2)"
    and "1 - depth * (1 - ((d - dur * (6/10)) / (dur * (4/10))) ^ 2) \<le> 1"
    unfolding e_def by simp_all
qed

lemma trapezoid_flux_range:
  "\<exists>v. trapezoid_flux ps per ip x = Fin v \<and> 1 - ps ^ 2 \<le> v \<and> v \<le> 1"
proof (cases "sample_distance per x")
  case NaN
  then show ?thesis by (simp add: trapezoid_flux_def np_lt_def)
next
  case (Fin d)
  define dur where "dur = 1/10 * (ip / 10)"
  have depth: "0 \<le> ps ^ 2" by simp
  show ?thesis
  proof (cases "d < dur * (6/10)")
    case True
    with Fin show ?thesis by (simp add: trapezoid_flux_def np_lt_def dur_def)
  next
    case mid: False
    show ?thesis
    proof (cases "d < dur")
      case True
      from taper_bounds[OF depth mid True] Fin mid True show ?thesis
        by (simp add: trapezoid_flux_def np_lt_def np_map_def dur_def)
    next
      case False
      with Fin mid show ?thesis by (simp add: trapezoid_flux_def np_lt_def dur_def)
    qed
  qed
qed

text \<open>
  Claim C1. For every time sequence, every radius ratio in (0,1), every period > 0 and
  every width factor > 0, the flux returned by the transit model is the trapezoid of the
  spec sample by sample (exactly 1 - depth on the flat bottom, the quadratic taper on
  ingress and egress, exactly 1 elsewhere), and every value is finite, positive and lies
  in the closed interval [1 - radiusRatio^2, 1].
\<close>

theorem transit_model_flux_range:
  assumes "0 < radiusRatio" and "radiusRatio < 1" and "0 < period" and "0 < widthFactor"
  shows "transit_model time radiusRatio period widthFactor
           = map (trapezoid_flux radiusRatio period widthFactor) time
         \<and> (\<forall>x \<in> set (transit_model time radiusRatio period widthFactor).
              \<exists>v. x = Fin v \<and> 0 < v \<and> 1 - radiusRatio ^ 2 \<le> v \<and> v \<le> 1)"
proof -
  from assms have "radiusRatio ^ 2 < 1" by (simp add: power_less_one_iff)
  then have pos: "0 < 1 - radiusRatio ^ 2" by simp
  have "\<exists>v. x = Fin v \<and> 0 < v \<and> 1 - radiusRatio ^ 2 \<le> v \<and> v \<le> 1"
    if "x \<in> set (transit_model time radiusRatio period widthFactor)" for x
  proof -
    from that obtain t where "x = trapezoid_flux radiusRatio period widthFactor t"
      by (auto simp: transit_model_pointwise)
    with trapezoid_flux_range[of radiusRatio period widthFactor t] pos show ?thesis
      by auto
  qed
  then show ?thesis by (simp add: transit_model_pointwise)
qed

theorem transit_model_flux_range_witness:
  "(0::real) < 1/2 \<and> (1/2::real) < 1 \<and> (0::real) < 4 \<and> (0::real) < 10
   \<and> transit_model [Fin 2, Fin 3] (1/2) 4 10 = [Fin (3/4), Fin 1]
   \<and> (0::real) < 3/4 \<and> 1 - (1/2) ^ 2 \<le> (3/4::real) \<and> (3/4::real) \<le> 1"
  using transit_model_flux_range[of "1/2" 4 10 "[Fin 2, Fin 3]"]
  by (simp add: trapezoid_flux_def sample_distance_def np_phase_def py_mod_def np_map_def
        np_lt_def power2_eq_square)


section \<open>Phase folding\<close>

lemma py_mod_shift:
  assumes "p \<noteq> 0"
  shows "py_mod (t + of_int k * p) p = py_mod t p"
proof -
  have "(t + of_int k * p) / p = t / p + of_int k"
    using assms by (simp add: add_divide_distrib)
  then have "\<lfloor>(t + of_int k * p) / p\<rfloor> = \<lfloor>t / p\<rfloor> + k" by simp
  then show ?thesis by (simp add: py_mod_def algebra_simps)
qed

lemma py_mod_pos_range:
  assumes "0 < p"
  shows "0 \<le> py_mod t p" and "py_mod t p < p"
proof -
  have le: "of_int \<lfloor>t / p\<rfloor> \<le> t / p" by (rule of_int_floor_le)
  have lt: "t / p < of_int \<lfloor>t / p\<rfloor> + 1" by linarith
  from le have "of_int \<lfloor>t / p\<rfloor> * p \<le> t" by (simp only: pos_le_divide_eq[OF assms])
  then show "0 \<le> py_mod t p" by (simp add: py_mod_def mult.commute)
  from lt have "t < (of_int \<lfloor>t / p\<rfloor> + 1) * p" by (simp only: pos_divide_less_eq[OF assms])
  then show "py_mod t p < p" by (simp add: py_mod_def algebra_simps)
qed

subsection \<open>float64 rounding is monotone and fixes the float64 values\<close>

lemma round_half_even_of_int: "round_half_even (of_int k) = k"
  by (simp add: round_half_even_def)

lemma round_half_even_bounds:
  "\<lfloor>x\<rfloor> \<le> round_half_even x" "round_half_even x \<le> \<lfloor>x\<rfloor> + 1"
  by (simp_all add: round_half_even_def Let_def)

lemma round_half_even_mono:
  assumes "x \<le> y"
  shows "round_half_even x \<le> round_half_even y"
proof (cases "\<lfloor>x\<rfloor> = \<lfloor>y\<rfloor>")
  case True
  with assms have "x - of_int \<lfloor>x\<rfloor> \<le> y - of_int \<lfloor>y\<rfloor>" by simp
  with True show ?thesis by (auto simp: round_half_even_def Let_def)
next
  case False
  from assms have "\<lfloor>x\<rfloor> \<le> \<lfloor>y\<rfloor>" by (rule floor_mono)
  with False have "\<lfloor>x\<rfloor> + 1 \<le> \<lfloor>y\<rfloor>" by simp
  with round_half_even_bounds(2)[of x] round_half_even_bounds(1)[of y]
  show ?thesis by linarith
qed

lemma exponent_upper:
  assumes "x \<noteq> 0"
  shows "\<bar>x\<bar> < 2 powr (of_int (float64_exponent x) + 1)"
proof -
  from assms have pos: "0 < \<bar>x\<bar>" by simp
  have "\<bar>x\<bar> < 2 powr (of_int \<lfloor>log 2 \<bar>x\<bar>\<rfloor> + 1)"
    using floor_log_eq_powr_iff[OF pos, of 2 "\<lfloor>log 2 \<bar>x\<bar>\<rfloor>"] by simp
  also have "\<dots> \<le> 2 powr (of_int (float64_exponent x) + 1)"
    by (simp add: float64_exponent_def)
  finally show ?thesis .
qed

lemma exponent_lower:
  assumes "x \<noteq> 0" and "- 1022 < float64_exponent x"
  shows "2 powr of_int (float64_exponent x) \<le> \<bar>x\<bar>"
proof -
  from assms have pos: "0 < \<bar>x\<bar>" by simp
  from assms(2) have "float64_exponent x = \<lfloor>log 2 \<bar>x\<bar>\<rfloor>"
    by (simp add: float64_exponent_def max_def split: if_splits)
  then show ?thesis
    using floor_log_eq_powr_iff[OF pos, of 2 "\<lfloor>log 2 \<bar>x\<bar>\<rfloor>"] by simp
qed

lemma exponent_mono:
  assumes "0 < a" and "a \<le> b"
  shows "float64_exponent a \<le> float64_exponent b"
proof -
  from assms have "log 2 \<bar>a\<bar> \<le> log 2 \<bar>b\<bar>" by simp
  then have "\<lfloor>log 2 \<bar>a\<bar>\<rfloor> \<le> \<lfloor>log 2 \<bar>b\<bar>\<rfloor>" by (rule floor_mono)
  then show ?thesis by (simp add: float64_exponent_def)
qed

lemma round64_pos_mono:
  assumes "0 < a" and "a \<le> b"
  shows "round64 a \<le> round64 b"
proof -
  define ea where "ea = float64_exponent a"
  define eb where "eb = float64_exponent b"
  define ua :: real where "ua = 2 powr (of_int ea - 52)"
  define ub :: real where "ub = 2 powr (of_int eb - 52)"
  from assms have b: "0 < b" by simp
  have ua: "0 < ua" and ub: "0 < ub" by (simp_all add: ua_def ub_def)
  have ra: "round64 a = of_int (round_half_even (a / ua)) * ua"
    using assms(1) by (simp add: round64_def ua_def ea_def Let_def)
  have rb: "round64 b = of_int (round_half_even (b / ub)) * ub"
    using b by (simp add: round64_def ub_def eb_def Let_def)
  have le: "ea \<le> eb" unfolding ea_def eb_def using assms by (rule exponent_mono)
  show ?thesis
  proof (cases "ea = eb")
    case True
    then have "ua = ub" by (simp add: ua_def ub_def)
    moreover from assms ub have "a / ub \<le> b / ub" by (simp add: divide_right_mono)
    then have "round_half_even (a / ub) \<le> round_half_even (b / ub)"
      by (rule round_half_even_mono)
    ultimately show ?thesis unfolding ra rb using ub by simp
  next
    case False
    with le have lt: "ea + 1 \<le> eb" by simp
    have "a < 2 powr (of_int ea + 1)"
      using exponent_upper[of a] assms(1) by (simp add: ea_def)
    also have "\<dots> = 2 ^ 53 * ua"
      by (simp add: ua_def powr_diff powr_add)
    finally have "a / ua \<le> 2 ^ 53" using ua by (simp add: pos_divide_le_eq)
    then have "round_half_even (a / ua) \<le> round_half_even (of_int (2 ^ 53))"
      by (intro round_half_even_mono) simp
    then have "round_half_even (a / ua) \<le> 2 ^ 53"
      by (simp only: round_half_even_of_int)
    then have "of_int (round_half_even (a / ua)) \<le> (2 ^ 53 :: real)"
      by (metis of_int_le_iff of_int_numeral of_int_power)
    then have "round64 a \<le> 2 ^ 53 * ua" unfolding ra using ua by simp
    also have "\<dots> = 2 powr (of_int ea + 1)"
      by (simp add: ua_def powr_diff powr_add)
    also have "\<dots> \<le> 2 powr of_int eb"
      using lt by simp
    finally have upper: "round64 a \<le> 2 powr of_int eb" .
    from lt have "- 1022 < eb"
      using le by (simp add: ea_def float64_exponent_def)
    then have "2 powr of_int eb \<le> b"
      using exponent_lower[of b] b by (simp add: eb_def)
    moreover have "2 powr of_int eb = 2 ^ 52 * ub"
      by (simp add: ub_def powr_diff)
    ultimately have "2 ^ 52 \<le> b / ub" using ub by (simp add: pos_le_divide_eq)
    then have "round_half_even (of_int (2 ^ 52)) \<le> round_half_even (b / ub)"
      by (intro round_half_even_mono) simp
    then have "2 ^ 52 \<le> round_half_even (b / ub)"
      by (simp only: round_half_even_of_int)
    then have "(2 ^ 52 :: real) \<le> of_int (round_half_even (b / ub))"
      by (metis of_int_le_iff of_int_numeral of_int_power)
    then have "2 ^ 52 * ub \<le> round64 b" unfolding rb using ub by simp
    then have "2 powr of_int eb \<le> round64 b"
      by (simp add: ub_def powr_diff)
    with upper show ?thesis by simp
  qed
qed

lemma round64_nonneg:
  assumes "0 \<le> a"
  shows "0 \<le> round64 a"
proof (cases "a = 0")
  case True
  then show ?thesis by (simp add: round64_def)
next
  case False
  define u :: real where "u = 2 powr (of_int (float64_exponent a) - 52)"
  have u: "0 < u" by (simp add: u_def)
  with assms have "0 \<le> a / u" by simp
  then have "round_half_even (of_int 0) \<le> round_half_even (a / u)"
    by (intro round_half_even_mono) simp
  then have "0 \<le> round_half_even (a / u)" by (simp only: round_half_even_of_int)
  with u False show ?thesis by (simp add: round64_def u_def Let_def)
qed

lemma round64_mono:
  assumes "0 \<le> a" and "a \<le> b"
  shows "round64 a \<le> round64 b"
proof (cases "a = 0")
  case True
  with assms round64_nonneg[of b] show ?thesis by (simp add: round64_def)
next
  case False
  with assms show ?thesis by (intro round64_pos_mono) simp_all
qed


lemma round64_fixed:
  assumes "\<bar>m\<bar> < 2 ^ 53" and "- 1074 \<le> e"
  shows "round64 (of_int m * 2 powr of_int e) = of_int m * 2 powr of_int e"
proof (cases "m = 0")
  case True
  then show ?thesis by (simp add: round64_def)
next
  case False
  define x :: real where "x = of_int m * 2 powr of_int e"
  define E where "E = float64_exponent x"
  define d where "d = e - (E - 52)"
  have x0: "x \<noteq> 0" using False by (simp add: x_def)
  have "\<bar>of_int m :: real\<bar> < 2 ^ 53"
    using assms(1) by (metis of_int_abs of_int_less_iff of_int_numeral of_int_power)
  then have "\<bar>x\<bar> < 2 ^ 53 * 2 powr of_int e"
    by (simp add: x_def abs_mult)
  also have "\<dots> = 2 powr (of_int (e + 53))"
    by (simp add: powr_add)
  finally have "log 2 \<bar>x\<bar> < of_int (e + 53)"
    using x0 by (simp add: log_less_iff)
  then have "\<lfloor>log 2 \<bar>x\<bar>\<rfloor> < e + 53" by (simp only: floor_less_iff)
  with assms(2) have "E \<le> e + 52" by (simp add: E_def float64_exponent_def)
  then have d: "0 \<le> d" by (simp add: d_def)
  have "x / 2 powr (of_int E - 52) = of_int m * 2 powr (of_int e - (of_int E - 52))"
    by (simp add: x_def powr_diff)
  also have "of_int e - (of_int E - 52) = (of_int d :: real)" by (simp add: d_def)
  also have "2 powr (of_int d) = (2::real) ^ nat d"
    using d by (simp add: powr_real_of_int)
  also have "of_int m * (2::real) ^ nat d = of_int (m * 2 ^ nat d)" by simp
  finally have "round_half_even (x / 2 powr (of_int E - 52)) = m * 2 ^ nat d"
    by (simp only: round_half_even_of_int)
  then have "round64 x = of_int (m * 2 ^ nat d) * 2 powr (of_int E - 52)"
    using x0 by (simp add: round64_def Let_def E_def)
  also have "\<dots> = of_int m * (2 powr (of_int d) * 2 powr (of_int E - 52))"
    using d by (simp add: powr_real_of_int)
  also have "2 powr (of_int d) * 2 powr (of_int E - 52) = (2::real) powr of_int e"
    by (simp add: d_def flip: powr_add)
  finally show ?thesis by (simp add: x_def)
qed

lemma round64_one: "round64 1 = 1"
  using round64_fixed[of 1 0] by simp

lemma round64_half: "round64 (1/2) = 1/2"
  using round64_fixed[of 1 "- 1"] by (simp add: powr_minus)

lemma round64_three_halves: "round64 (3/2) = 3/2"
  using round64_fixed[of 3 "- 1"] by (simp add: powr_minus)

lemma round64_below_one: "round64 (1 - 1 / 2 ^ 70) = 1"
proof -
  define x :: real where "x = 1 - 1 / 2 ^ 70"
  have x: "0 < x" "1/2 \<le> x" "x < 1" by (simp_all add: x_def)
  have "\<lfloor>log 2 \<bar>x\<bar>\<rfloor> = - 1"
    using x floor_log_eq_powr_iff[of "\<bar>x\<bar>" 2 "- 1"] by (simp add: powr_minus)
  then have E: "float64_exponent x = - 1" by (simp add: float64_exponent_def)
  have u: "2 powr (of_int (- 1) - 52) = (1 / 2 ^ 53 :: real)"
    using powr_real_of_int[of "2::real" "- 53"] by simp
  have q: "x / (1 / 2 ^ 53) = 2 ^ 53 - 1 / 2 ^ 17" by (simp add: x_def)
  have fl: "\<lfloor>2 ^ 53 - 1 / 2 ^ 17 :: real\<rfloor> = 2 ^ 53 - 1"
    by (rule floor_unique) simp_all
  have "round_half_even (2 ^ 53 - 1 / 2 ^ 17) = 2 ^ 53"
    unfolding round_half_even_def fl Let_def by simp
  then show ?thesis
    using x(1) unfolding x_def[symmetric] round64_def E Let_def u q by simp
qed


subsection \<open>The remainder and the phase in float64\<close>

lemma c_fmod_pos_range:
  assumes "0 < y"
  shows "- y < c_fmod x y" and "c_fmod x y < y"
proof -
  have fl: "of_int \<lfloor>x / y\<rfloor> \<le> x / y" "x / y < of_int \<lfloor>x / y\<rfloor> + 1" by linarith+
  have ce: "x / y \<le> of_int \<lceil>x / y\<rceil>" "of_int \<lceil>x / y\<rceil> < x / y + 1" by linarith+
  from fl have f: "of_int \<lfloor>x / y\<rfloor> * y \<le> x" "x < (of_int \<lfloor>x / y\<rfloor> + 1) * y"
    by (simp_all only: pos_le_divide_eq[OF assms] pos_divide_less_eq[OF assms])
  from ce(1) have c1: "x \<le> of_int \<lceil>x / y\<rceil> * y"
    by (simp only: pos_divide_le_eq[OF assms])
  from ce(2) have "of_int \<lceil>x / y\<rceil> < (x + y) / y"
    using assms by (simp add: add_divide_distrib)
  then have c2: "of_int \<lceil>x / y\<rceil> * y < x + y"
    by (simp only: pos_less_divide_eq[OF assms])
  show "- y < c_fmod x y"
    using f c1 c2 assms by (simp add: c_fmod_def algebra_simps)
  show "c_fmod x y < y"
    using f c1 c2 assms by (simp add: c_fmod_def algebra_simps)
qed

lemma py_mod_c_fmod:
  assumes "0 < y"
  shows "py_mod x y = (if c_fmod x y < 0 then c_fmod x y + y else c_fmod x y)"
proof (cases "0 \<le> x / y")
  case True
  then have eq: "c_fmod x y = py_mod x y" by (simp add: c_fmod_def py_mod_def)
  with py_mod_pos_range(1)[OF assms, of x] show ?thesis by simp
next
  case False
  define k where "k = \<lceil>x / y\<rceil> - \<lfloor>x / y\<rfloor>"
  have k: "k = 0 \<or> k = 1" unfolding k_def by linarith
  have diff: "py_mod x y = c_fmod x y + y * of_int k"
    using False by (simp add: c_fmod_def py_mod_def k_def algebra_simps)
  show ?thesis
  proof (cases "c_fmod x y < 0")
    case True
    with py_mod_pos_range(1)[OF assms, of x] diff have "k \<noteq> 0" by auto
    with k diff True show ?thesis by auto
  next
    case nonneg: False
    have "k \<noteq> 1"
    proof
      assume "k = 1"
      with diff nonneg have "y \<le> py_mod x y" by simp
      with py_mod_pos_range(2)[OF assms, of x] show False by simp
    qed
    with k diff nonneg show ?thesis by auto
  qed
qed

lemma np_remainder_py_mod:
  assumes "0 < y"
  shows "np_remainder x y = (if c_fmod x y < 0 then round64 (py_mod x y) else py_mod x y)"
  using assms py_mod_c_fmod[OF assms, of x] by (auto simp: np_remainder_def Let_def)

lemma np_remainder_exact:
  assumes "0 < y" and "round64 (py_mod x y) = py_mod x y"
  shows "np_remainder x y = py_mod x y"
  using assms by (simp add: np_remainder_py_mod)

lemma np_remainder_range:
  assumes "0 < y" and "round64 y = y"
  shows "0 \<le> np_remainder x y" and "np_remainder x y \<le> y"
proof -
  note r = py_mod_pos_range[OF assms(1), of x]
  have "0 \<le> round64 (py_mod x y)" using r(1) by (rule round64_nonneg)
  moreover have "round64 (py_mod x y) \<le> round64 y"
    using r by (intro round64_mono) simp_all
  ultimately show "0 \<le> np_remainder x y" and "np_remainder x y \<le> y"
    using r assms by (simp_all add: np_remainder_py_mod)
qed

lemma np_phase64_range:
  assumes "0 < period" and "round64 period = period"
  shows "\<exists>ph. np_phase64 period (Fin t) = Fin ph \<and> 0 \<le> ph \<and> ph \<le> 1"
proof -
  note r = np_remainder_range[OF assms, of t]
  from r assms(1) have q: "0 \<le> np_remainder t period / period"
    "np_remainder t period / period \<le> 1" by simp_all
  have "0 \<le> round64 (np_remainder t period / period)" using q(1) by (rule round64_nonneg)
  moreover have "round64 (np_remainder t period / period) \<le> round64 1"
    using q by (rule round64_mono)
  ultimately show ?thesis using assms(1) by (simp add: np_phase64_def round64_one)
qed

lemma np_phase64_exact_shift:
  assumes "0 < period" and "round64 (py_mod t period) = py_mod t period"
  shows "np_phase64 period (Fin (t + of_int k * period)) = np_phase64 period (Fin t)"
    and "np_phase64 period (Fin t) = Fin (round64 (py_mod t period / period))"
proof -
  from assms(1) have ne: "period \<noteq> 0" by simp
  have s: "py_mod (t + of_int k * period) period = py_mod t period"
    using ne by (rule py_mod_shift)
  have a: "np_remainder t period = py_mod t period"
    using assms by (rule np_remainder_exact)
  have b: "np_remainder (t + of_int k * period) period = py_mod t period"
    using np_remainder_exact[OF assms(1), of "t + of_int k * period"] assms(2) s by simp
  show "np_phase64 period (Fin (t + of_int k * period)) = np_phase64 period (Fin t)"
    using ne by (simp add: np_phase64_def a b)
  show "np_phase64 period (Fin t) = Fin (round64 (py_mod t period / period))"
    using ne by (simp add: np_phase64_def a)
qed

lemma map_phase64_update:
  assumes "i < length ts" and "ts ! i = Fin t"
    and "0 < period" and "round64 (py_mod t period) = py_mod t period"
  shows "map (np_phase64 period) (ts[i := Fin (t + of_int k * period)])
         = map (np_phase64 period) ts"
proof -
  have "map (np_phase64 period) (ts[i := Fin (t + of_int k * period)])
        = (map (np_phase64 period) ts)[i := np_phase64 period (Fin (t + of_int k * period))]"
    by (rule map_update)
  also have "\<dots> = (map (np_phase64 period) ts)[i := (map (np_phase64 period) ts) ! i]"
    using assms by (simp add: np_phase64_exact_shift(1))
  also have "\<dots> = map (np_phase64 period) ts" by (rule list_update_id)
  finally show ?thesis .
qed

lemma fold_at_period_loaded:
  assumes "length flux = length ts"
  shows "fold_at_period \<lparr>self_time = Some ts, self_flux = Some flux\<rparr> period
         = Inr (Some (map (np_phase64 period) ts))"
  using assms by (simp add: fold_at_period_def plt_scatter_def)

lemma fold_at_period_habitable_loaded:
  assumes "length flux = length ts" and "ts \<noteq> []"
  shows "fold_at_period_habitable \<lparr>self_time = Some ts, self_flux = Some flux\<rparr> period
         = Inr ((), [(map (np_phase64 period) ts, flux)])"
  using assms by (auto simp: fold_at_period_habitable_def has_data_def plt_scatter_def)



lemma round64_two: "round64 2 = 2"
  using round64_fixed[of 1 1] by simp

lemma round64_quarter: "round64 (1/4) = 1/4"
  using round64_fixed[of 1 "- 2"] by (simp add: powr_minus)

lemma round64_minus_half: "round64 (- (1/2)) = - (1/2)"
  using round64_fixed[of "- 1" "- 1"] by (simp add: powr_minus)

lemma round64_tiny: "round64 (- (1 / 2 ^ 70)) = - (1 / 2 ^ 70)"
  using round64_fixed[of "- 1" "- 70"] by (simp add: powr_minus)

lemma round64_zero: "round64 0 = 0"
  by (simp add: round64_def)

lemma np_remainder_tiny: "np_remainder (- (1 / 2 ^ 70)) 1 = 1"
proof -
  have "\<lceil>- (1 / 2 ^ 70) :: real\<rceil> = 0" by (rule ceiling_unique) simp_all
  then have "c_fmod (- (1 / 2 ^ 70)) 1 = - (1 / 2 ^ 70)" by (simp add: c_fmod_def)
  with round64_below_one show ?thesis
    by (simp add: np_remainder_def Let_def)
qed

text \<open>
  Claim C3 as stated fails in float64. The time \<open>-2^-70\<close> and the period 1 are
  float64 values; the remainder \<open>fmod\<close> gives is \<open>-2^-70\<close>, adding the period
  rounds to 1, and the phase is exactly 1, outside [0,1). The shifted time
  \<open>-2^-70 + 1 * 1\<close> rounds to 1 as well, whose phase is 0: the fold is not invariant
  under a shift that is computed in float64.
\<close>

theorem fold_phase_one_counterexample:
  "round64 (- (1 / 2 ^ 70)) = - (1 / 2 ^ 70) \<and> round64 1 = 1
   \<and> fold_at_period \<lparr>self_time = Some [Fin (- (1 / 2 ^ 70))], self_flux = Some [Fin 1]\<rparr> 1
       = Inr (Some [Fin 1])
   \<and> round64 (- (1 / 2 ^ 70) + 1 * 1) = 1
   \<and> fold_at_period \<lparr>self_time = Some [Fin 1], self_flux = Some [Fin 1]\<rparr> 1
       = Inr (Some [Fin 0])"
proof -
  have a: "fold_at_period \<lparr>self_time = Some [Fin (- (1 / 2 ^ 70))], self_flux = Some [Fin 1]\<rparr> 1
       = Inr (Some [Fin 1])"
    using np_remainder_tiny
    by (simp add: fold_at_period_def plt_scatter_def np_phase64_def round64_one)
  have b: "round64 (- (1 / 2 ^ 70) + 1 * 1) = 1"
    using round64_below_one by simp
  have "c_fmod 1 1 = 0" by (simp add: c_fmod_def)
  then have c: "fold_at_period \<lparr>self_time = Some [Fin 1], self_flux = Some [Fin 1]\<rparr> 1
       = Inr (Some [Fin 0])"
    by (simp add: fold_at_period_def plt_scatter_def np_phase64_def np_remainder_def
          round64_zero)
  from a b c round64_tiny round64_one show ?thesis by blast
qed

text \<open>
  Claim C3, amended. For every period > 0 that is a float64 value and all loaded time
  and flux arrays of equal length, the fold returns a phase array of the length of the
  time array, and the phase of every finite sample lies in the closed interval [0,1];
  the value 1 is attained. The exact remainder of a sample is invariant under a shift by
  whole periods; when it is a float64 value (so that the remainder is not rounded),
  replacing \<open>ts[i]\<close> by the exact \<open>ts[i] + k * period\<close> leaves the phase array
  unchanged and the phase of sample i is the rounded quotient
  \<open>(ts[i] mod period) / period\<close>. The fold of trappist\_habitable.py scatters the same
  phase array against the flux and returns None.
\<close>

theorem fold_phase_closed_range:
  assumes "0 < period" and "round64 period = period"
    and "i < length ts" and "ts ! i = Fin t" and "length flux = length ts"
  shows "(\<exists>phase.
            fold_at_period \<lparr>self_time = Some ts, self_flux = Some flux\<rparr> period
              = Inr (Some phase)
          \<and> fold_at_period_habitable \<lparr>self_time = Some ts, self_flux = Some flux\<rparr> period
              = Inr ((), [(phase, flux)])
          \<and> length phase = length ts
          \<and> (\<forall>j < length ts. \<forall>x. ts ! j = Fin x \<longrightarrow>
                (\<exists>ph. phase ! j = Fin ph \<and> 0 \<le> ph \<and> ph \<le> 1)))
       \<and> py_mod (t + of_int k * period) period = py_mod t period
       \<and> (round64 (py_mod t period) = py_mod t period \<longrightarrow>
             fold_at_period \<lparr>self_time = Some (ts[i := Fin (t + of_int k * period)]),
                             self_flux = Some flux\<rparr> period
               = fold_at_period \<lparr>self_time = Some ts, self_flux = Some flux\<rparr> period
           \<and> fold_at_period_habitable
                 \<lparr>self_time = Some (ts[i := Fin (t + of_int k * period)]),
                  self_flux = Some flux\<rparr> period
               = fold_at_period_habitable \<lparr>self_time = Some ts, self_flux = Some flux\<rparr>
                   period
           \<and> map (np_phase64 period) ts ! i = Fin (round64 (py_mod t period / period)))"
proof (intro conjI impI)
  have ne: "ts \<noteq> []" using assms(3) by auto
  have c: "\<forall>j < length ts. \<forall>x. ts ! j = Fin x \<longrightarrow>
             (\<exists>ph. map (np_phase64 period) ts ! j = Fin ph \<and> 0 \<le> ph \<and> ph \<le> 1)"
  proof (intro allI impI)
    fix j x
    assume "j < length ts" and "ts ! j = Fin x"
    then have "map (np_phase64 period) ts ! j = np_phase64 period (Fin x)" by simp
    with np_phase64_range[OF assms(1,2), of x]
    show "\<exists>ph. map (np_phase64 period) ts ! j = Fin ph \<and> 0 \<le> ph \<and> ph \<le> 1" by simp
  qed
  show "\<exists>phase.
            fold_at_period \<lparr>self_time = Some ts, self_flux = Some flux\<rparr> period
              = Inr (Some phase)
          \<and> fold_at_period_habitable \<lparr>self_time = Some ts, self_flux = Some flux\<rparr> period
              = Inr ((), [(phase, flux)])
          \<and> length phase = length ts
          \<and> (\<forall>j < length ts. \<forall>x. ts ! j = Fin x \<longrightarrow>
                (\<exists>ph. phase ! j = Fin ph \<and> 0 \<le> ph \<and> ph \<le> 1))"
    using fold_at_period_loaded[OF assms(5), of period]
      fold_at_period_habitable_loaded[OF assms(5) ne, of period] c
    by (intro exI[of _ "map (np_phase64 period) ts"] conjI) simp_all
  show "py_mod (t + of_int k * period) period = py_mod t period"
    using assms(1) by (intro py_mod_shift) simp
next
  assume h: "round64 (py_mod t period) = py_mod t period"
  note upd = map_phase64_update[OF assms(3,4,1) h, of k]
  have len: "length flux = length (ts[i := Fin (t + of_int k * period)])"
    using assms(5) by simp
  have ne: "ts \<noteq> []" "ts[i := Fin (t + of_int k * period)] \<noteq> []"
    using assms(3) by auto
  show "fold_at_period \<lparr>self_time = Some (ts[i := Fin (t + of_int k * period)]),
                             self_flux = Some flux\<rparr> period
               = fold_at_period \<lparr>self_time = Some ts, self_flux = Some flux\<rparr> period"
    unfolding fold_at_period_loaded[OF len] fold_at_period_loaded[OF assms(5)] upd ..
  show "fold_at_period_habitable
                 \<lparr>self_time = Some (ts[i := Fin (t + of_int k * period)]),
                  self_flux = Some flux\<rparr> period
               = fold_at_period_habitable \<lparr>self_time = Some ts, self_flux = Some flux\<rparr>
                   period"
    unfolding fold_at_period_habitable_loaded[OF len ne(2)]
      fold_at_period_habitable_loaded[OF assms(5) ne(1)] upd ..
  show "map (np_phase64 period) ts ! i = Fin (round64 (py_mod t period / period))"
    using assms(3,4) np_phase64_exact_shift(2)[OF assms(1) h] by simp
qed

lemma fold_example:
  "fold_at_period \<lparr>self_time = Some [Fin 0, Fin (1/2)], self_flux = Some [Fin 1, Fin 1]\<rparr> 2
     = Inr (Some [Fin 0, Fin (1/4)])"
proof -
  have cf: "c_fmod 0 2 = 0" "c_fmod (1/2) 2 = 1/2" by (simp_all add: c_fmod_def)
  show ?thesis
    by (simp add: fold_at_period_def plt_scatter_def np_phase64_def np_remainder_def
          round64_zero round64_quarter cf)
qed

theorem fold_phase_closed_range_witness:
  "(0::real) < 2 \<and> round64 2 = 2
   \<and> (1::nat) < length [Fin 0, Fin (1/2)] \<and> [Fin 0, Fin (1/2)] ! 1 = Fin (1/2)
   \<and> length [Fin 1, Fin (1::real)] = length [Fin 0, Fin (1/2 :: real)]
   \<and> round64 (py_mod (1/2) 2) = py_mod (1/2) 2
   \<and> fold_at_period \<lparr>self_time = Some [Fin 0, Fin (1/2)], self_flux = Some [Fin 1, Fin 1]\<rparr> 2
       = Inr (Some [Fin 0, Fin (1/4)])
   \<and> fold_at_period \<lparr>self_time = Some [Fin 0, Fin (1/2 + of_int 2 * 2)],
                      self_flux = Some [Fin 1, Fin 1]\<rparr> 2
       = Inr (Some [Fin 0, Fin (1/4)])"
proof -
  have h: "round64 (py_mod (1/2) 2) = py_mod (1/2) 2"
    by (simp add: py_mod_def round64_half)
  from fold_phase_closed_range[of 2 1 "[Fin 0, Fin (1/2)]" "1/2" "[Fin 1, Fin 1]" 2] h
  show ?thesis by (simp add: round64_two fold_example)
qed


section \<open>The fit score\<close>

lemma np_sum_const: "np_sum (map (\<lambda>_. Fin c) xs) = Fin (real (length xs) * c)"
  by (induction xs) (simp_all add: np_sum_def np_add_def algebra_simps)

lemma rms_const:
  assumes "xs \<noteq> []"
  shows "np_sqrt (np_mean (map (np_map (\<lambda>r. r ^ 2)) (map (\<lambda>_. Fin c) xs))) = Fin \<bar>c\<bar>"
proof -
  have sq: "map (np_map (\<lambda>r. r ^ 2)) (map (\<lambda>_. Fin c) xs) = map (\<lambda>_. Fin (c ^ 2)) xs"
    by (simp add: np_map_def)
  have "real (length xs) \<noteq> 0" using assms by simp
  then show ?thesis
    unfolding sq by (simp add: np_mean_def np_sum_const np_map_def np_sqrt_def assms)
qed

lemma map2_sub_offset:
  "map2 np_sub (map Fin xs) (map (\<lambda>x. Fin (x + d)) xs) = map (\<lambda>_. Fin (- d)) xs"
  by (induction xs) (simp_all add: np_sub_def)

lemma fit_quality_offset:
  assumes "xs \<noteq> []"
  shows "fit_quality (map Fin xs) (map (\<lambda>x. Fin (x + d)) xs)
         = Inr \<lparr>fit_rms_error = Fin \<bar>d\<bar>,
                fit_score = Fin (min (max (100 * exp (- \<bar>d\<bar> * 1000)) 0) 100)\<rparr>"
  using rms_const[OF assms, of "- d"]
  by (simp add: fit_quality_def np_subtract_def map2_sub_offset np_clip_def np_map_def Let_def)

lemma score_of_rms:
  assumes "fit_quality obs mdl = Inr r" and "fit_rms_error r = Fin e"
  shows "fit_score r = Fin (min (max (100 * exp (- e * 1000)) 0) 100)"
  using assms
  by (auto simp: fit_quality_def Let_def np_clip_def np_map_def split: sum.splits)

lemma score_antimono:
  fixes e1 e2 :: real
  assumes "e1 \<le> e2"
  shows "min (max (100 * exp (- e2 * 1000)) 0) 100 \<le> min (max (100 * exp (- e1 * 1000)) 0) 100"
proof -
  from assms have "exp (- e2 * 1000) \<le> exp (- e1 * 1000)" by simp
  then have "100 * exp (- e2 * 1000) \<le> 100 * exp (- e1 * 1000)" by simp
  then show ?thesis by (simp add: min_def max_def)
qed

text \<open>
  Claim C6. The fit score is monotonically non-increasing in the RMS error: for any two
  scored input pairs whose RMS errors are e1 \<le> e2, the scores satisfy
  score(e2) \<le> score(e1). In particular, scoring a non-empty sequence x against
  x + d gives the RMS error |d|, and the score does not increase as |d| grows.
\<close>

theorem fit_score_antimono:
  "(fit_quality obs1 mdl1 = Inr r1 \<and> fit_quality obs2 mdl2 = Inr r2
      \<and> fit_rms_error r1 = Fin e1 \<and> fit_rms_error r2 = Fin e2 \<and> e1 \<le> e2
    \<longrightarrow> (\<exists>s1 s2. fit_score r1 = Fin s1 \<and> fit_score r2 = Fin s2 \<and> s2 \<le> s1))
   \<and> (xs \<noteq> [] \<and> \<bar>d1\<bar> \<le> \<bar>d2\<bar>
    \<longrightarrow> (\<exists>q1 q2 s1 s2.
           fit_quality (map Fin xs) (map (\<lambda>x. Fin (x + d1)) xs) = Inr q1
         \<and> fit_quality (map Fin xs) (map (\<lambda>x. Fin (x + d2)) xs) = Inr q2
         \<and> fit_rms_error q1 = Fin \<bar>d1\<bar> \<and> fit_rms_error q2 = Fin \<bar>d2\<bar>
         \<and> fit_score q1 = Fin s1 \<and> fit_score q2 = Fin s2 \<and> s2 \<le> s1))"
proof (intro conjI impI)
  assume h: "fit_quality obs1 mdl1 = Inr r1 \<and> fit_quality obs2 mdl2 = Inr r2
      \<and> fit_rms_error r1 = Fin e1 \<and> fit_rms_error r2 = Fin e2 \<and> e1 \<le> e2"
  then have q1: "fit_quality obs1 mdl1 = Inr r1" and e1: "fit_rms_error r1 = Fin e1"
    and q2: "fit_quality obs2 mdl2 = Inr r2" and e2: "fit_rms_error r2 = Fin e2"
    by simp_all
  have "fit_score r1 = Fin (min (max (100 * exp (- e1 * 1000)) 0) 100)"
    using q1 e1 by (rule score_of_rms)
  moreover have "fit_score r2 = Fin (min (max (100 * exp (- e2 * 1000)) 0) 100)"
    using q2 e2 by (rule score_of_rms)
  moreover from h have "min (max (100 * exp (- e2 * 1000)) 0) 100
                        \<le> min (max (100 * exp (- e1 * 1000)) 0) 100"
    by (intro score_antimono) simp
  ultimately show "\<exists>s1 s2. fit_score r1 = Fin s1 \<and> fit_score r2 = Fin s2 \<and> s2 \<le> s1"
    by blast
next
  assume h: "xs \<noteq> [] \<and> \<bar>d1\<bar> \<le> \<bar>d2\<bar>"
  then have ne: "xs \<noteq> []" and le: "\<bar>d1\<bar> \<le> \<bar>d2\<bar>" by simp_all
  let ?s = "\<lambda>d::real. min (max (100 * exp (- \<bar>d\<bar> * 1000)) 0) 100"
  let ?q = "\<lambda>d. \<lparr>fit_rms_error = Fin \<bar>d\<bar>, fit_score = Fin (?s d)\<rparr>"
  have "?s d2 \<le> ?s d1" using le by (rule score_antimono)
  then have "fit_quality (map Fin xs) (map (\<lambda>x. Fin (x + d1)) xs) = Inr (?q d1)
         \<and> fit_quality (map Fin xs) (map (\<lambda>x. Fin (x + d2)) xs) = Inr (?q d2)
         \<and> fit_rms_error (?q d1) = Fin \<bar>d1\<bar> \<and> fit_rms_error (?q d2) = Fin \<bar>d2\<bar>
         \<and> fit_score (?q d1) = Fin (?s d1) \<and> fit_score (?q d2) = Fin (?s d2) \<and> ?s d2 \<le> ?s d1"
    by (simp add: fit_quality_offset[OF ne])
  then show "\<exists>q1 q2 s1 s2.
           fit_quality (map Fin xs) (map (\<lambda>x. Fin (x + d1)) xs) = Inr q1
         \<and> fit_quality (map Fin xs) (map (\<lambda>x. Fin (x + d2)) xs) = Inr q2
         \<and> fit_rms_error q1 = Fin \<bar>d1\<bar> \<and> fit_rms_error q2 = Fin \<bar>d2\<bar>
         \<and> fit_score q1 = Fin s1 \<and> fit_score q2 = Fin s2 \<and> s2 \<le> s1"
    by blast
qed

lemma fit_quality_unit_a: "fit_quality [Fin 1] [Fin 1]
    = Inr \<lparr>fit_rms_error = Fin 0, fit_score = Fin 100\<rparr>"
  by (simp add: fit_quality_def np_subtract_def np_sub_def np_map_def np_mean_def np_sum_def
        np_add_def np_sqrt_def np_clip_def)

lemma fit_quality_unit_b: "fit_quality [Fin 2] [Fin 1]
    = Inr \<lparr>fit_rms_error = Fin 1, fit_score = Fin (100 * exp (- 1000))\<rparr>"
  by (simp add: fit_quality_def np_subtract_def np_sub_def np_map_def np_mean_def np_sum_def
        np_add_def np_sqrt_def np_clip_def)


theorem fit_score_antimono_witness:
  "fit_quality [Fin 1] [Fin 1] = Inr \<lparr>fit_rms_error = Fin 0, fit_score = Fin 100\<rparr>
   \<and> fit_quality [Fin 2] [Fin 1]
       = Inr \<lparr>fit_rms_error = Fin 1, fit_score = Fin (100 * exp (- 1000))\<rparr>
   \<and> (0::real) \<le> 1
   \<and> (\<exists>s1 s2. fit_score \<lparr>fit_rms_error = Fin 0, fit_score = Fin 100\<rparr> = Fin s1
          \<and> fit_score \<lparr>fit_rms_error = Fin 1, fit_score = Fin (100 * exp (- 1000))\<rparr> = Fin s2
          \<and> s2 \<le> s1)
   \<and> [1::real] \<noteq> [] \<and> \<bar>0::real\<bar> \<le> \<bar>1\<bar>
   \<and> (\<exists>q1 q2 s1 s2.
           fit_quality (map Fin [1]) (map (\<lambda>x. Fin (x + 0)) [1]) = Inr q1
         \<and> fit_quality (map Fin [1]) (map (\<lambda>x. Fin (x + 1)) [1]) = Inr q2
         \<and> fit_rms_error q1 = Fin \<bar>0\<bar> \<and> fit_rms_error q2 = Fin \<bar>1\<bar>
         \<and> fit_score q1 = Fin s1 \<and> fit_score q2 = Fin s2 \<and> s2 \<le> s1)"
  using fit_score_antimono[of "[Fin 1]" "[Fin 1]" "\<lparr>fit_rms_error = Fin 0, fit_score = Fin 100\<rparr>"
          "[Fin 2]" "[Fin 1]" "\<lparr>fit_rms_error = Fin 1, fit_score = Fin (100 * exp (- 1000))\<rparr>"
          0 1 "[1]" 0 1]
        fit_quality_unit_a fit_quality_unit_b
  by simp



lemma length_transit_model: "length (transit_model time ps per ip) = length time"
  by (simp add: transit_model_pointwise)



lemma update_fit_fit_quality:
  "update_fit time flux ps per sp =
     (case fit_quality flux (transit_model time ps per sp) of
        Inl e \<Rightarrow> Inl e
      | Inr r \<Rightarrow>
          if length time \<noteq> length flux then Inl (ValueError PlotSizes)
          else (case fit_score r of
                  NaN \<Rightarrow> Inl (ValueError NaNToInteger)
                | Fin _ \<Rightarrow> Inr r))"
proof (cases "length flux = length time")
  case True
  then have "np_subtract flux (transit_model time ps per sp)
             = Inr (map2 np_sub flux (transit_model time ps per sp))"
    by (simp add: np_subtract_def length_transit_model)
  with True show ?thesis
    by (simp add: update_fit_def fit_quality_def Let_def plt_scatter_def plt_plot_def
          py_int_def length_transit_model np_clip_def np_map_def split: npfloat.splits)
next
  case False
  then show ?thesis
    by (auto simp: update_fit_def fit_quality_def Let_def plt_scatter_def
          split: sum.splits)
qed









lemma transit_model_flat_example: "transit_model [Fin 0] (1/20) 260 4 = [Fin 1]"
  by (simp add: transit_model_pointwise trapezoid_flux_def sample_distance_def np_phase_def
        py_mod_def np_map_def np_lt_def)

lemma fit_quality_nan_flux:
  "fit_quality [NaN] [Fin 1] = Inr \<lparr>fit_rms_error = NaN, fit_score = NaN\<rparr>"
  by (simp add: fit_quality_def np_subtract_def np_sub_def np_map_def np_mean_def np_sum_def
        np_add_def np_sqrt_def np_clip_def)

lemma fit_quality_empty: "fit_quality [] [] = Inr \<lparr>fit_rms_error = NaN, fit_score = NaN\<rparr>"
  by (simp add: fit_quality_def np_subtract_def np_mean_def np_sqrt_def np_map_def
        np_clip_def)

lemma transit_model_empty: "transit_model [] ps per sp = []"
  by (simp add: transit_model_pointwise)

text \<open>
  Claim C9 as stated fails. For empty time and flux arrays the scoring lines raise
  nothing and compute NaN for the RMS error and the score from the mean of the empty
  residual array; the only error of \<open>update_fit\<close> is the ValueError of \<open>int\<close> on
  the NaN score, and the non-empty input with time [0] and flux [NaN] raises the same
  error: it is not an empty-input condition.
\<close>

theorem empty_input_nan_counterexample:
  "fit_quality [] [] = Inr \<lparr>fit_rms_error = NaN, fit_score = NaN\<rparr>
   \<and> update_fit [] [] (1/20) 260 4 = Inl (ValueError NaNToInteger)
   \<and> update_fit [Fin 0] [NaN] (1/20) 260 4 = Inl (ValueError NaNToInteger)"
  by (simp add: update_fit_fit_quality transit_model_empty fit_quality_empty
        transit_model_flat_example fit_quality_nan_flux)

text \<open>
  Claim C9, amended. For zero-length time and flux sequences the scoring lines make no
  emptiness check: the mean of the empty residual array is NaN, and the RMS error and the
  score are both NaN. \<open>update_fit\<close> then fails with the ValueError that \<open>int\<close>
  raises on the NaN score when the progress bar is computed. The same ValueError is
  raised for every input of equal lengths whose score is NaN, empty or not, so there is
  no condition that singles out empty input.
\<close>

theorem empty_input_nan:
  "fit_quality [] (transit_model [] planet_size orbital_period orbital_speed)
     = Inr \<lparr>fit_rms_error = NaN, fit_score = NaN\<rparr>
   \<and> update_fit [] [] planet_size orbital_period orbital_speed
       = Inl (ValueError NaNToInteger)
   \<and> (length flux = length time
        \<and> fit_quality flux (transit_model time planet_size orbital_period orbital_speed)
            = Inr r
        \<and> fit_score r = NaN
      \<longrightarrow> update_fit time flux planet_size orbital_period orbital_speed
            = Inl (ValueError NaNToInteger))"
  by (simp add: update_fit_fit_quality transit_model_empty fit_quality_empty)

theorem empty_input_nan_witness:
  "length [NaN] = length [Fin (0::real)]
   \<and> fit_quality [NaN] (transit_model [Fin 0] (1/20) 260 4)
       = Inr \<lparr>fit_rms_error = NaN, fit_score = NaN\<rparr>
   \<and> fit_score \<lparr>fit_rms_error = NaN, fit_score = NaN\<rparr> = NaN
   \<and> update_fit [Fin 0] [NaN] (1/20) 260 4 = Inl (ValueError NaNToInteger)"
  using empty_input_nan[of "1/20" 260 4 "[NaN]" "[Fin 0]"
          "\<lparr>fit_rms_error = NaN, fit_score = NaN\<rparr>"]
  by (simp add: transit_model_flat_example fit_quality_nan_flux)

section \<open>Non-positive periods\<close>

lemma np_phase64_zero: "np_phase64 0 x = NaN"
  by (simp add: np_phase64_def split: npfloat.splits)

lemma np_phase_zero: "np_phase 0 x = NaN"
  by (simp add: np_phase_def split: npfloat.splits)

lemma trapezoid_flux_zero_period: "trapezoid_flux ps 0 ip x = Fin 1"
  by (simp add: trapezoid_flux_def sample_distance_def np_phase_zero np_map_def np_lt_def)

lemma fold_minus_one_example:
  "fold_at_period \<lparr>self_time = Some [Fin (1/2)], self_flux = Some [Fin 1]\<rparr> (- 1)
     = Inr (Some [Fin (1/2)])"
proof -
  have "\<lceil>- (1/2) :: real\<rceil> = 0" by (rule ceiling_unique) simp_all
  then have cf: "c_fmod (1/2) (- 1) = 1/2" by (simp add: c_fmod_def)
  show ?thesis
    using round64_minus_half round64_half
    by (simp add: fold_at_period_def plt_scatter_def np_phase64_def np_remainder_def cf)
qed

text \<open>
  Claim C2 as stated fails: with period 0 the transit model returns its all-ones flux and
  the fold returns NaN phases, and with period -1 the fold returns an ordinary phase;
  none of the calls signals an error.
\<close>

theorem nonpositive_period_counterexample:
  "transit_model [Fin 1] (1/10) 0 4 = [Fin 1]
   \<and> fold_at_period \<lparr>self_time = Some [Fin 1], self_flux = Some [Fin 1]\<rparr> 0 = Inr (Some [NaN])
   \<and> fold_at_period \<lparr>self_time = Some [Fin (1/2)], self_flux = Some [Fin 1]\<rparr> (- 1)
       = Inr (Some [Fin (1/2)])"
  using fold_minus_one_example
  by (simp add: transit_model_pointwise trapezoid_flux_zero_period fold_at_period_def
        plt_scatter_def np_phase64_zero)

text \<open>
  Claim C2, amended. When called with a period \<le> 0, neither the transit model nor the
  fold signals an invalid-parameter error: the transit model returns a flux array of the
  input's length, and the fold, on loaded time and flux arrays of equal length, returns a
  phase array of that length. For period = 0 every phase is NaN and the transit model
  returns all ones.
\<close>

theorem nonpositive_period_no_error:
  assumes "period \<le> 0" and "length flux = length time"
  shows "length (transit_model time planet_size period impact_parameter) = length time
       \<and> (\<exists>phase. fold_at_period \<lparr>self_time = Some time, self_flux = Some flux\<rparr> period
                      = Inr (Some phase)
              \<and> length phase = length time)
       \<and> (period = 0 \<longrightarrow>
             transit_model time planet_size period impact_parameter = ones_like time
           \<and> fold_at_period \<lparr>self_time = Some time, self_flux = Some flux\<rparr> period
               = Inr (Some (map (\<lambda>_. NaN) time)))"
proof (intro conjI impI)
  show "length (transit_model time planet_size period impact_parameter) = length time"
    by (rule length_transit_model)
  show "\<exists>phase. fold_at_period \<lparr>self_time = Some time, self_flux = Some flux\<rparr> period
                      = Inr (Some phase)
              \<and> length phase = length time"
    using fold_at_period_loaded[OF assms(2), of period] by simp
next
  assume "period = 0"
  then show "transit_model time planet_size period impact_parameter = ones_like time"
    by (simp add: transit_model_pointwise trapezoid_flux_zero_period ones_like_def)
next
  assume "period = 0"
  then show "fold_at_period \<lparr>self_time = Some time, self_flux = Some flux\<rparr> period
               = Inr (Some (map (\<lambda>_. NaN) time))"
    using fold_at_period_loaded[OF assms(2), of period] by (simp add: np_phase64_zero)
qed

theorem nonpositive_period_no_error_witness:
  "(- 1::real) \<le> 0 \<and> length [Fin (1::real)] = length [Fin (1/2 :: real)]
   \<and> length (transit_model [Fin (1/2)] (1/10) (- 1) 4) = length [Fin (1/2)]
   \<and> fold_at_period \<lparr>self_time = Some [Fin (1/2)], self_flux = Some [Fin 1]\<rparr> (- 1)
       = Inr (Some [Fin (1/2)])"
  using nonpositive_period_no_error[of "- 1" "[Fin 1]" "[Fin (1/2)]" "1/10" 4]
    fold_minus_one_example
  by simp

section \<open>The caller's arrays are never written\<close>

lemma transit_model_st_frame:
  "take (length s) (snd (transit_model_st time ps per ip s)) = s"
  by (simp add: transit_model_st_def alloc_def Let_def)

lemma transit_model_st_fresh:
  "length s \<le> fst (transit_model_st time ps per ip s)
   \<and> fst (transit_model_st time ps per ip s) < length (snd (transit_model_st time ps per ip s))"
  by (simp add: transit_model_st_def alloc_def Let_def)

lemma transit_model_st_result:
  assumes "time < length s"
  shows "snd (transit_model_st time ps per ip s) ! fst (transit_model_st time ps per ip s)
         = transit_model (s ! time) ps per ip"
  using assms
  by (simp add: transit_model_st_def transit_model_def alloc_def Let_def nth_append)

lemma fold_at_period_st_frame:
  "take (length s) (snd (fold_at_period_st self period s)) = s"
  by (simp add: fold_at_period_st_def alloc_def Let_def plt_scatter_def split: option.splits)

lemma fold_at_period_st_result:
  assumes "time_ref self = Some time" and "flux_ref self = Some flux"
    and "time < length s" and "flux < length s"
  shows "(length (s ! flux) = length (s ! time) \<longrightarrow>
            (\<exists>phase s'. fold_at_period_st self period s = (Inr (Some phase), s')
               \<and> length s \<le> phase \<and> phase < length s'
               \<and> fold_at_period \<lparr>self_time = Some (s ! time), self_flux = Some (s ! flux)\<rparr>
                    period = Inr (Some (s' ! phase))))
       \<and> (length (s ! flux) \<noteq> length (s ! time) \<longrightarrow>
            fst (fold_at_period_st self period s) = Inl (ValueError PlotSizes)
          \<and> fold_at_period \<lparr>self_time = Some (s ! time), self_flux = Some (s ! flux)\<rparr>
               period = Inl (ValueError PlotSizes))"
  using assms
  by (simp add: fold_at_period_st_def fold_at_period_def alloc_def Let_def plt_scatter_def
        nth_append)

lemma take_nth_eq:
  assumes "take n ys = xs" and "a < length xs"
  shows "ys ! a = xs ! a"
proof -
  from assms have "a < n" by auto
  then have "take n ys ! a = ys ! a" by simp
  with assms(1) show ?thesis by simp
qed

text \<open>
  Claim C10. Neither the transit model nor the fold mutates the caller's arrays: for
  every store and every pair of live input addresses, after either call every array that
  existed before the call, the time and flux inputs among them, is unchanged element by
  element, also when the fold raises. The transit model writes its depths only into the
  freshly allocated all-ones flux array, which holds the result of the pure model, and
  the fold returns its phases in a new array.
\<close>

theorem inputs_not_mutated:
  assumes "time < length s" and "flux < length s"
    and "time_ref self = Some time" and "flux_ref self = Some flux"
  shows "take (length s) (snd (transit_model_st time planet_size period impact_parameter s)) = s
       \<and> snd (transit_model_st time planet_size period impact_parameter s) ! time = s ! time
       \<and> snd (transit_model_st time planet_size period impact_parameter s) ! flux = s ! flux
       \<and> length s \<le> fst (transit_model_st time planet_size period impact_parameter s)
       \<and> snd (transit_model_st time planet_size period impact_parameter s)
            ! fst (transit_model_st time planet_size period impact_parameter s)
          = transit_model (s ! time) planet_size period impact_parameter
       \<and> take (length s) (snd (fold_at_period_st self period s)) = s
       \<and> snd (fold_at_period_st self period s) ! time = s ! time
       \<and> snd (fold_at_period_st self period s) ! flux = s ! flux
       \<and> (length (s ! flux) = length (s ! time) \<longrightarrow>
            (\<exists>phase s'. fold_at_period_st self period s = (Inr (Some phase), s')
               \<and> length s \<le> phase \<and> phase < length s'
               \<and> fold_at_period \<lparr>self_time = Some (s ! time), self_flux = Some (s ! flux)\<rparr>
                    period = Inr (Some (s' ! phase))))
       \<and> (length (s ! flux) \<noteq> length (s ! time) \<longrightarrow>
            fst (fold_at_period_st self period s) = Inl (ValueError PlotSizes)
          \<and> fold_at_period \<lparr>self_time = Some (s ! time), self_flux = Some (s ! flux)\<rparr>
               period = Inl (ValueError PlotSizes))"
proof -
  note f1 = transit_model_st_frame[of s time planet_size period impact_parameter]
  note f2 = fold_at_period_st_frame[of s self period]
  have "snd (transit_model_st time planet_size period impact_parameter s) ! time = s ! time"
    and "snd (transit_model_st time planet_size period impact_parameter s) ! flux = s ! flux"
    using take_nth_eq[OF f1 assms(1)] take_nth_eq[OF f1 assms(2)] by simp_all
  moreover have "snd (fold_at_period_st self period s) ! time = s ! time"
    and "snd (fold_at_period_st self period s) ! flux = s ! flux"
    using take_nth_eq[OF f2 assms(1)] take_nth_eq[OF f2 assms(2)] by simp_all
  moreover note f1 f2 transit_model_st_fresh[of s time planet_size period impact_parameter]
    transit_model_st_result[OF assms(1), of planet_size period impact_parameter]
    fold_at_period_st_result[OF assms(3,4,1,2), of period]
  ultimately show ?thesis by blast
qed

theorem inputs_not_mutated_witness:
  "(0::nat) < length [[Fin 2], [Fin 1]] \<and> (1::nat) < length [[Fin 2], [Fin (1::real)]]
   \<and> time_ref \<lparr>time_ref = Some 0, flux_ref = Some 1\<rparr> = Some 0
   \<and> flux_ref \<lparr>time_ref = Some 0, flux_ref = Some 1\<rparr> = Some 1
   \<and> length ([[Fin 2], [Fin (1::real)]] ! 1) = length ([[Fin 2], [Fin (1::real)]] ! 0)
   \<and> transit_model_st 0 (1/2) 4 10 [[Fin 2], [Fin 1]]
       = (3, [[Fin 2], [Fin 1], [Fin (1/2)], [Fin (3/4)], [Fin 0]])
   \<and> take (length [[Fin 2], [Fin (1::real)]])
          (snd (transit_model_st 0 (1/2) 4 10 [[Fin 2], [Fin 1]])) = [[Fin 2], [Fin 1]]
   \<and> fold_at_period_st \<lparr>time_ref = Some 0, flux_ref = Some 1\<rparr> 4 [[Fin 2], [Fin 1]]
       = (Inr (Some 2), [[Fin 2], [Fin 1], [Fin (1/2)]])"
proof -
  have cf: "c_fmod 2 4 = 2" by (simp add: c_fmod_def)
  have ph: "np_phase64 4 (Fin 2) = Fin (1/2)"
    using round64_half by (simp add: np_phase64_def np_remainder_def cf)
  from inputs_not_mutated[of 0 "[[Fin 2], [Fin 1]]" 1
         "\<lparr>time_ref = Some 0, flux_ref = Some 1\<rparr>" "1/2" 4 10]
  show ?thesis
    by (simp add: transit_model_st_def fold_at_period_st_def alloc_def Let_def np_phase_def
          py_mod_def np_map_def np_lt_def np_any_def ones_like_def mask_fill_def
          power2_eq_square plt_scatter_def ph)
qed


section \<open>The habitability score\<close>

text \<open>
  Claim C4. For every temperature the habitability score lies in the closed interval
  [0.3, 1.0]: the final clamp \<open>max(0.3, min(1.0, score))\<close> is applied after every
  branch of the piecewise policy.
\<close>

theorem habitability_score_range:
  "3/10 \<le> calculate_habitability_score temp \<and> calculate_habitability_score temp \<le> 1"
  by (simp add: calculate_habitability_score_def Let_def)

text \<open>
  Claim C5. The score is not monotone in the distance from the 15 degree peak across the
  -20 degree band boundary: at -21 degrees it is 0.6 - 1/150, at -20 degrees it is
  1 - 35/65, and the colder temperature has the strictly higher score.
\<close>

theorem habitability_score_not_monotone:
  "calculate_habitability_score (-21) = 6/10 - 1/150
   \<and> calculate_habitability_score (-20) = 1 - 35/65
   \<and> calculate_habitability_score (-20) < calculate_habitability_score (-21)
   \<and> (\<exists>t1 t2. t1 < t2 \<and> t2 \<le> 15
        \<and> calculate_habitability_score t2 < calculate_habitability_score t1)"
proof -
  have a: "calculate_habitability_score (-21) = 6/10 - 1/150"
    by (simp add: calculate_habitability_score_def)
  have b: "calculate_habitability_score (-20) = 1 - 35/65"
    by (simp add: calculate_habitability_score_def)
  have c: "calculate_habitability_score (-20) < calculate_habitability_score (-21)"
    unfolding a b by simp
  have "(-21::real) < -20 \<and> (-20::real) \<le> 15
        \<and> calculate_habitability_score (-20) < calculate_habitability_score (-21)"
    using c by simp
  then have "\<exists>t1 t2. t1 < t2 \<and> t2 \<le> 15
        \<and> calculate_habitability_score t2 < calculate_habitability_score t1"
    by blast
  with a b c show ?thesis by blast
qed

end
